theory Spec2Isabelle
  imports Complex_Main "HOL-Library.Multiset"
begin

section \<open>Python values used by \<open>network_analyzer.py\<close>\<close>

text \<open>
  A Python \<open>str\<close> is modelled as a \<open>string\<close>; each \<open>char\<close> stands for one code point
  below 256. Exceptions are values: a computation of the program that may raise returns
  \<open>py_exception + 'a\<close>, with \<open>Inl\<close> for the raised exception. (A call into a library
  returns an \<open>outcome\<close>, introduced further down, which keeps only the text of the
  exception.)
\<close>

datatype py_exception =
    IndexError
  | InvalidLiteral string
  | ExceedsDigitLimit
  | NotEnoughValues nat
  | TooManyValues
  | CantStartThread

definition bind_exc :: "py_exception + 'a \<Rightarrow> ('a \<Rightarrow> py_exception + 'b) \<Rightarrow> py_exception + 'b" where
  "bind_exc m f = (case m of Inl e \<Rightarrow> Inl e | Inr x \<Rightarrow> f x)"

text \<open>\<open>xs[i]\<close> for a non-negative index: \<open>IndexError\<close> when out of range.\<close>

definition getitem :: "'a list \<Rightarrow> nat \<Rightarrow> py_exception + 'a" where
  "getitem xs i = (if i < length xs then Inr (xs ! i) else Inl IndexError)"

text \<open>
  The code points below 256 for which \<open>str.isspace\<close> holds; \<open>str.strip()\<close> and the
  regular expression class \<open>\s\<close> use the same set.
\<close>

definition whitespace :: "char list" where
  "whitespace = [CHR 0x09, CHR 0x0A, CHR 0x0B, CHR 0x0C, CHR 0x0D, CHR 0x1C, CHR 0x1D,
                 CHR 0x1E, CHR 0x1F, CHR 0x20, CHR 0x85, CHR 0xA0]"

definition isspace :: "char \<Rightarrow> bool" where
  "isspace c = (c \<in> set whitespace)"

text \<open>The class \<open>\d\<close> below code point 256.\<close>

definition isdigit :: "char \<Rightarrow> bool" where
  "isdigit c = (c \<in> set ''0123456789'')"

text \<open>\<open>s.strip()\<close>\<close>

definition strip :: "string \<Rightarrow> string" where
  "strip s = rev (dropWhile isspace (rev (dropWhile isspace s)))"

text \<open>\<open>s.startswith(p)\<close>\<close>

definition startswith :: "string \<Rightarrow> string \<Rightarrow> bool" where
  "startswith s p = (take (length p) s = p)"

text \<open>\<open>s.split(sep)\<close> for a separator of one character: never an empty list.\<close>

fun str_split :: "char \<Rightarrow> string \<Rightarrow> string list" where
  "str_split sep [] = [[]]"
| "str_split sep (c # cs) =
     (if c = sep then [] # str_split sep cs
      else (case str_split sep cs of
              [] \<Rightarrow> [[c]]
            | w # ws \<Rightarrow> (c # w) # ws))"

text \<open>
  \<open>re.split(r'\s+', s)\<close>: the pieces between the maximal runs of whitespace, an empty
  piece before a leading run and after a trailing one.
\<close>

function re_split_ws :: "string \<Rightarrow> string list" where
  "re_split_ws [] = [[]]"
| "re_split_ws (c # cs) =
     (if isspace c then [] # re_split_ws (dropWhile isspace cs)
      else (case re_split_ws cs of
              [] \<Rightarrow> [[c]]
            | w # ws \<Rightarrow> (c # w) # ws))"
  by pat_completeness auto
termination
  by (relation "measure length") (auto simp: less_Suc_eq_le length_dropWhile_le)

text \<open>
  \<open>re.match(r'^\d+\.\d+\.\d+\.\d+', s)\<close>. A digit is never a dot, so the greedy
  \<open>\d+\<close> takes the whole run of digits and no backtracking changes the outcome.
  Each step returns the rest of the input after what it consumed.
\<close>

definition re_digits :: "string \<Rightarrow> string option" where
  "re_digits s = (if takeWhile isdigit s = [] then None else Some (dropWhile isdigit s))"

definition re_dot :: "string \<Rightarrow> string option" where
  "re_dot s = (case s of [] \<Rightarrow> None | c # cs \<Rightarrow> if c = CHR ''.'' then Some cs else None)"

definition re_match_ipv4 :: "string \<Rightarrow> bool" where
  "re_match_ipv4 s =
     (Option.bind (Option.bind (Option.bind (Option.bind (Option.bind (Option.bind
        (re_digits s) re_dot) re_digits) re_dot) re_digits) re_dot) re_digits \<noteq> None)"

section \<open>Route table parsers\<close>

text \<open>
  A route is the dict the parser appends: its items in insertion order.
\<close>

type_synonym route = "(string \<times> string) list"

subsection \<open>\<open>_parse_windows_route\<close>\<close>

definition windows_route :: "string list \<Rightarrow> py_exception + route" where
  "windows_route parts =
     bind_exc (getitem parts 0) (\<lambda>p0.
     bind_exc (getitem parts 1) (\<lambda>p1.
     bind_exc (getitem parts 2) (\<lambda>p2.
     bind_exc (getitem parts 3) (\<lambda>p3.
     bind_exc (if length parts > 4 then getitem parts 4 else Inr []) (\<lambda>p4.
       Inr [(''Destination'', p0), (''Netmask'', p1), (''Gateway'', p2),
            (''Interface'', p3), (''Metric'', p4)])))))"

fun parse_windows_lines :: "string list \<Rightarrow> route list \<Rightarrow> py_exception + route list" where
  "parse_windows_lines [] routes = Inr routes"
| "parse_windows_lines (l # ls) routes =
     (let line = strip l in
      if startswith line ''0.0.0.0'' then
        (let parts = re_split_ws line in
         if length parts \<ge> 5 then
           (case windows_route parts of
              Inl e \<Rightarrow> Inl e
            | Inr r \<Rightarrow> parse_windows_lines ls (routes @ [r]))
         else parse_windows_lines ls routes)
      else parse_windows_lines ls routes)"

definition parse_windows_route :: "string \<Rightarrow> py_exception + route list" where
  "parse_windows_route output = parse_windows_lines (str_split CHR 0x0A output) []"

subsection \<open>\<open>_parse_unix_route\<close>\<close>

definition unix_default_route :: "string list \<Rightarrow> py_exception + route" where
  "unix_default_route parts =
     bind_exc (getitem parts 0) (\<lambda>p0.
     bind_exc (getitem parts 1) (\<lambda>p1.
     bind_exc (if length parts > 2 then getitem parts 2 else Inr []) (\<lambda>p2.
     bind_exc (if length parts > 3 then getitem parts 3 else Inr []) (\<lambda>p3.
     bind_exc (if length parts > 5 then getitem parts 5 else Inr []) (\<lambda>p5.
       Inr [(''Destination'', if p0 = ''default'' then ''default'' else p0),
            (''Gateway'', p1), (''Genmask'', p2), (''Flags'', p3),
            (''Interface'', p5)])))))"

definition unix_net_route :: "string list \<Rightarrow> py_exception + route" where
  "unix_net_route parts =
     bind_exc (getitem parts 0) (\<lambda>p0.
     bind_exc (getitem parts 1) (\<lambda>p1.
     bind_exc (getitem parts 2) (\<lambda>p2.
     bind_exc (getitem parts 3) (\<lambda>p3.
     bind_exc (if length parts > 5 then getitem parts 5 else Inr []) (\<lambda>p5.
       Inr [(''Destination'', p0), (''Gateway'', p1), (''Genmask'', p2), (''Flags'', p3),
            (''Interface'', p5)])))))"

fun parse_unix_lines :: "string list \<Rightarrow> route list \<Rightarrow> py_exception + route list" where
  "parse_unix_lines [] routes = Inr routes"
| "parse_unix_lines (l # ls) routes =
     (let line = strip l in
      if startswith line ''default'' \<or> startswith line ''0.0.0.0'' then
        (let parts = re_split_ws line in
         if length parts \<ge> 4 then
           (case unix_default_route parts of
              Inl e \<Rightarrow> Inl e
            | Inr r \<Rightarrow> parse_unix_lines ls (routes @ [r]))
         else parse_unix_lines ls routes)
      else if re_match_ipv4 line then
        (let parts = re_split_ws line in
         if length parts \<ge> 5 then
           (case unix_net_route parts of
              Inl e \<Rightarrow> Inl e
            | Inr r \<Rightarrow> parse_unix_lines ls (routes @ [r]))
         else parse_unix_lines ls routes)
      else parse_unix_lines ls routes)"

definition parse_unix_route :: "string \<Rightarrow> py_exception + route list" where
  "parse_unix_route output = parse_unix_lines (str_split CHR 0x0A output) []"

subsection \<open>Dispatch on the operating system\<close>

text \<open>
  \<open>_get_routing_table\<close> chooses the parser from \<open>platform.system()\<close>: \<open>_parse_windows_route\<close>
  on Windows, \<open>_parse_unix_route\<close> on Linux and Darwin. \<open>parse_route_table\<close> is that
  choice applied to the text the routing command printed.
\<close>

datatype os_family = Windows | Linux | Darwin

definition parse_route_table :: "os_family \<Rightarrow> string \<Rightarrow> py_exception + route list" where
  "parse_route_table system output =
     (case system of
        Windows \<Rightarrow> parse_windows_route output
      | Linux \<Rightarrow> parse_unix_route output
      | Darwin \<Rightarrow> parse_unix_route output)"

subsection \<open>Line shapes named by the specification\<close>

text \<open>
  The specification speaks of the whitespace-separated fields of a line and of the lines
  a layout recognizes. Both are read off a line as the parsers see it, stripped.
\<close>

definition line_fields :: "string \<Rightarrow> string list" where
  "line_fields l = re_split_ws (strip l)"

text \<open>Layout style 1: the default-route token first, at least 5 fields.\<close>

definition recognized_windows :: "string \<Rightarrow> bool" where
  "recognized_windows l = (startswith (strip l) ''0.0.0.0'' \<and> 5 \<le> length (line_fields l))"

text \<open>Layout style 2, shape (a): \<open>default\<close> or the default-route token first, at least 4 fields.\<close>

definition default_shape :: "string \<Rightarrow> bool" where
  "default_shape l =
     ((startswith (strip l) ''default'' \<or> startswith (strip l) ''0.0.0.0'') \<and> 4 \<le> length (line_fields l))"

text \<open>Layout style 2, shape (b): a dotted-decimal address first, at least 5 fields.\<close>

definition dotted_shape :: "string \<Rightarrow> bool" where
  "dotted_shape l = (re_match_ipv4 (strip l) \<and> 5 \<le> length (line_fields l))"

definition recognized_unix :: "string \<Rightarrow> bool" where
  "recognized_unix l = (default_shape l \<or> dotted_shape l)"

definition recognized :: "os_family \<Rightarrow> string \<Rightarrow> bool" where
  "recognized system l =
     (case system of
        Windows \<Rightarrow> recognized_windows l
      | Linux \<Rightarrow> recognized_unix l
      | Darwin \<Rightarrow> recognized_unix l)"

text \<open>The record the specification assigns to a line of shape (b), field by field.\<close>

definition positional_record :: "string \<Rightarrow> route" where
  "positional_record l =
     [(''Destination'', line_fields l ! 0), (''Gateway'', line_fields l ! 1), (''Genmask'', line_fields l ! 2),
      (''Flags'', line_fields l ! 3),
      (''Interface'', if 6 \<le> length (line_fields l) then line_fields l ! 5 else [])]"

section \<open>Port scanner\<close>

subsection \<open>\<open>int(s)\<close> on a string\<close>

text \<open>
  \<open>int\<close> skips whitespace on both sides (the C whitespace and the two code points
  0x85 and 0xA0, which CPython first rewrites to a space; 0x1C to 0x1F are not
  skipped), takes one optional sign, then decimal digits in which single underscores may
  stand between digits. \<open>max_str_digits\<close> is \<open>sys.get_int_max_str_digits()\<close>: when it is
  not 0, a literal of more digits raises \<open>ValueError\<close> too. The limit is tested after the
  digits are read and before what follows them.
\<close>

definition int_space :: "char \<Rightarrow> bool" where
  "int_space c = (c \<in> set [CHR 0x09, CHR 0x0A, CHR 0x0B, CHR 0x0C, CHR 0x0D, CHR 0x20,
                              CHR 0x85, CHR 0xA0])"

definition digit_val :: "char \<Rightarrow> int" where
  "digit_val c = int (of_char c) - 48"

fun int_digits :: "char \<Rightarrow> string \<Rightarrow> int \<Rightarrow> nat \<Rightarrow> (int \<times> nat \<times> string) option" where
  "int_digits prev [] acc n = (if prev = CHR ''_'' then None else Some (acc, n, []))"
| "int_digits prev (c # cs) acc n =
     (if isdigit c then int_digits c cs (10 * acc + digit_val c) (Suc n)
      else if c = CHR ''_'' then (if prev = CHR ''_'' then None else int_digits c cs acc n)
      else if prev = CHR ''_'' then None
      else Some (acc, n, c # cs))"

definition py_int :: "nat \<Rightarrow> string \<Rightarrow> py_exception + int" where
  "py_int max_str_digits s =
     (let t = dropWhile int_space s;
          negative = (t \<noteq> [] \<and> hd t = CHR ''-'');
          u = (if t \<noteq> [] \<and> (hd t = CHR ''+'' \<or> hd t = CHR ''-'') then tl t else t)
      in if u \<noteq> [] \<and> hd u = CHR ''_'' then Inl (InvalidLiteral s)
         else (case int_digits (CHR 0x00) u 0 0 of
                 None \<Rightarrow> Inl (InvalidLiteral s)
               | Some (v, n, rest) \<Rightarrow>
                   if n = 0 then Inl (InvalidLiteral s)
                   else if 0 < max_str_digits \<and> max_str_digits < n then Inl ExceedsDigitLimit
                   else if dropWhile int_space rest \<noteq> [] then Inl (InvalidLiteral s)
                   else Inr (if negative then - v else v)))"

subsection \<open>\<open>start_port, end_port = map(int, ports.split('-'))\<close>\<close>

text \<open>
  \<open>map\<close> is lazy and the unpacking draws from it: the first two pieces are converted in
  turn, then a third is asked for, and converted, before \<open>too many values\<close> is raised.
\<close>

definition parse_ports :: "nat \<Rightarrow> string \<Rightarrow> py_exception + int \<times> int" where
  "parse_ports max_str_digits ports =
     (case str_split CHR ''-'' ports of
        [] \<Rightarrow> Inl (NotEnoughValues 0)
      | [a] \<Rightarrow> bind_exc (py_int max_str_digits a) (\<lambda>_. Inl (NotEnoughValues 1))
      | a # b # more \<Rightarrow>
          bind_exc (py_int max_str_digits a) (\<lambda>start_port.
          bind_exc (py_int max_str_digits b) (\<lambda>end_port.
            (case more of
               [] \<Rightarrow> Inr (start_port, end_port)
             | c # _ \<Rightarrow> bind_exc (py_int max_str_digits c) (\<lambda>_. Inl TooManyValues)))))"

subsection \<open>\<open>port_scan\<close>\<close>

text \<open>
  The network answers one connection attempt: \<open>connect_ex\<close> returns an error number
  (0 for an accepted connection), or something inside the \<open>with\<close> block raises (name
  resolution, a port the socket layer rejects, no socket left).
\<close>

datatype attempt = ConnectEx int | SocketRaised

type_synonym network = "string \<Rightarrow> int \<Rightarrow> real \<Rightarrow> attempt"

text \<open>
  The body of one thread, \<open>scan_port(port)\<close>, as its effect on the shared list
  \<open>open_ports\<close>: one append when \<open>connect_ex\<close> returned 0, nothing otherwise; the bare
  \<open>except\<close> swallows whatever was raised.
\<close>

definition scan_port :: "network \<Rightarrow> string \<Rightarrow> real \<Rightarrow> int \<Rightarrow> int list \<Rightarrow> int list" where
  "scan_port net target timeout port open_ports =
     (case net target port timeout of
        ConnectEx result \<Rightarrow> if result = 0 then open_ports @ [port] else open_ports
      | SocketRaised \<Rightarrow> open_ports)"

text \<open>
  The loop \<open>for port in range(start_port, end_port + 1)\<close> creates one thread per port and
  starts it. \<open>Thread.start()\<close> raises \<open>RuntimeError("can't start new thread")\<close> when the
  runtime has no thread left; \<open>can_start\<close> says for which ports the start succeeds. The
  exception leaves the loop at once: the threads started so far keep running, the
  remaining ports get none. \<open>start_threads\<close> returns the ports whose threads were started,
  in that order, and the exception if one was raised.
\<close>

fun start_threads :: "(int \<Rightarrow> bool) \<Rightarrow> int list \<Rightarrow> int list \<Rightarrow> int list \<times> py_exception option" where
  "start_threads can_start [] started = (started, None)"
| "start_threads can_start (port # rest) started =
     (if can_start port then start_threads can_start rest (started @ [port])
      else (started, Some CantStartThread))"

text \<open>
  The started threads run concurrently; what remains of the interleaving is the order in
  which their bodies take effect on \<open>open_ports\<close>. That order is the scheduler's choice: it
  is given the threads in the order they were started and returns them in the order they
  complete. A scheduler of a real run permutes the threads (\<open>fair\<close>): every started thread
  completes once, as the joins wait for.

  When every thread was started, all are joined and \<open>open_ports\<close> is returned. When a start
  raised, the handler of the outer \<open>try\<close> returns the error string at once; the threads
  already started are not joined and make their connection attempts all the same.

  The function returns the value of \<open>port_scan\<close> and the ports on which a connection is
  attempted, in that order. \<open>ScanError e\<close> stands for the string \<open>"Scan error: " + str(e)\<close>.
\<close>

type_synonym scheduler = "int list \<Rightarrow> int list"

definition fair :: "scheduler \<Rightarrow> int list \<Rightarrow> bool" where
  "fair sched threads = (mset (sched threads) = mset threads)"

datatype scan_result = ScanError py_exception | OpenPorts "int list"

definition port_scan ::
  "nat \<Rightarrow> network \<Rightarrow> (int \<Rightarrow> bool) \<Rightarrow> scheduler \<Rightarrow> string \<Rightarrow> string \<Rightarrow> real \<Rightarrow>
     scan_result \<times> int list" where
  "port_scan max_str_digits net can_start sched target ports timeout =
     (case parse_ports max_str_digits ports of
        Inl e \<Rightarrow> (ScanError e, [])
      | Inr (start_port, end_port) \<Rightarrow>
          (case start_threads can_start [start_port..end_port] [] of
             (started, Some e) \<Rightarrow> (ScanError e, sched started)
           | (started, None) \<Rightarrow>
               (let completed = sched started
                in (OpenPorts (foldl (\<lambda>open_ports port. scan_port net target timeout port open_ports)
                                  [] completed),
                    completed))))"

text \<open>
  The specification's words for a well-formed range: two integer literals with one
  \<open>-\<close> between them.
\<close>

definition two_integers :: "nat \<Rightarrow> string \<Rightarrow> int \<Rightarrow> int \<Rightarrow> bool" where
  "two_integers max_str_digits ports s e =
     (\<exists>a b. ports = a @ ''-'' @ b \<and> CHR ''-'' \<notin> set a \<and> CHR ''-'' \<notin> set b \<and>
            py_int max_str_digits a = Inr s \<and> py_int max_str_digits b = Inr e)"

section \<open>Calls that leave the program\<close>

text \<open>
  A call into a library either returns or raises. The handlers of this program read
  nothing of an exception but its text \<open>str(e)\<close>, so a raised exception is that text.
\<close>

datatype 'a outcome = Returns 'a | Raises string

definition bind_outcome :: "'a outcome \<Rightarrow> ('a \<Rightarrow> 'b outcome) \<Rightarrow> 'b outcome" where
  "bind_outcome m f = (case m of Returns v \<Rightarrow> f v | Raises e \<Rightarrow> Raises e)"

text \<open>\<open>try: body except Exception as e: handler\<close>\<close>

definition try_except :: "'a outcome \<Rightarrow> (string \<Rightarrow> 'a outcome) \<Rightarrow> 'a outcome" where
  "try_except body handler = (case body of Returns v \<Rightarrow> Returns v | Raises e \<Rightarrow> handler e)"

text \<open>
  \<open>threading.Thread(target=f)\<close>, started and joined: an exception raised by the target
  ends the thread and is not raised again in the thread that joins it.
\<close>

definition run_thread :: "'a outcome \<Rightarrow> 'a option" where
  "run_thread target = (case target of Returns v \<Rightarrow> Some v | Raises _ \<Rightarrow> None)"

section \<open>Speed test\<close>

text \<open>
  The \<open>speedtest\<close> library is not part of the program; it is a parameter. \<open>st.results\<close>
  holds the four attributes the program reads. \<open>Speedtest()\<close> returns the object with its
  initial results, \<open>get_best_server\<close> fills in ping and server, \<open>download\<close> and \<open>upload\<close>
  each assign their own attribute when they complete. \<open>fmt2\<close> is the rendering \<open>:.2f\<close> of
  a float.
\<close>

record st_results =
  download :: real
  upload :: real
  ping :: real
  server :: "(string \<times> string) list"

record speedtest_lib =
  Speedtest :: "st_results outcome"
  get_best_server :: "st_results \<Rightarrow> st_results outcome"
  st_download :: "st_results \<Rightarrow> real outcome"
  st_upload :: "st_results \<Rightarrow> real outcome"
  fmt2 :: "real \<Rightarrow> string"

type_synonym report = "(string \<times> string) list"

text \<open>\<open>d[key]\<close> on a dict: \<open>KeyError\<close>, whose text is the \<open>repr\<close> of the key.\<close>

definition subscript :: "(string \<times> string) list \<Rightarrow> string \<Rightarrow> string outcome" where
  "subscript d key =
     (case map_of d key of
        Some v \<Rightarrow> Returns v
      | None \<Rightarrow> Raises ([CHR 0x27] @ key @ [CHR 0x27]))"

text \<open>The body of the \<open>try\<close> in \<open>run_speed_test\<close>; its value is the dict assigned at its end.\<close>

definition speed_test_body :: "speedtest_lib \<Rightarrow> report outcome" where
  "speed_test_body lib =
     bind_outcome (Speedtest lib) (\<lambda>st0.
     bind_outcome (get_best_server lib st0) (\<lambda>st1.
       (let st2 = (case run_thread (st_download lib st1) of
                     Some d \<Rightarrow> st1\<lparr>download := d\<rparr>
                   | None \<Rightarrow> st1);
            st3 = (case run_thread (st_upload lib st1) of
                     Some u \<Rightarrow> st2\<lparr>upload := u\<rparr>
                   | None \<Rightarrow> st2)
        in bind_outcome (subscript (server st3) ''name'') (\<lambda>name.
             Returns [(''Download'', fmt2 lib (download st3 / 1000000) @ '' Mbps''),
                      (''Upload'', fmt2 lib (upload st3 / 1000000) @ '' Mbps''),
                      (''Ping'', fmt2 lib (ping st3) @ '' ms''),
                      (''Server'', name)]))))"

text \<open>
  \<open>run_speed_test\<close>: the value it leaves in \<open>self.speed_test_results\<close>, or the exception
  that escapes it.
\<close>

definition run_speed_test :: "speedtest_lib \<Rightarrow> report outcome" where
  "run_speed_test lib = try_except (speed_test_body lib) (\<lambda>e. Returns [(''Error'', e)])"

text \<open>The two variants of a report, by the keys present.\<close>

definition has_key :: "report \<Rightarrow> string \<Rightarrow> bool" where
  "has_key r k = (map_of r k \<noteq> None)"

definition success_report :: "report \<Rightarrow> bool" where
  "success_report r =
     (has_key r ''Download'' \<and> has_key r ''Upload'' \<and> has_key r ''Ping'' \<and> has_key r ''Server'' \<and>
      \<not> has_key r ''Error'')"



section \<open>Public address lookup\<close>

text \<open>
  \<open>requests.get(url).text\<close> against the outside world \<open>web\<close>; \<open>sent\<close> records the
  addresses requested, in order.
\<close>

definition requests_get ::
  "(string \<Rightarrow> string outcome) \<Rightarrow> string \<Rightarrow> string list \<Rightarrow> string outcome \<times> string list" where
  "requests_get web url sent = (web url, sent @ [url])"

text \<open>
  \<open>_get_external_ip\<close>: the value it leaves in \<open>self.external_ip\<close>, or the exception that
  escapes it, and the requests it made.
\<close>

definition get_external_ip :: "(string \<Rightarrow> string outcome) \<Rightarrow> string outcome \<times> string list" where
  "get_external_ip web =
     (let (first, sent1) = requests_get web ''https://api.ipify.org'' []
      in (case first of
            Returns text \<Rightarrow> (Returns text, sent1)
          | Raises _ \<Rightarrow>
              (let (second, sent2) = requests_get web ''https://ident.me'' sent1
               in (try_except second (\<lambda>e. Returns (''Error: '' @ e)), sent2))))"

section \<open>Scenarios\<close>

text \<open>Networks: every port accepts; only port 10 accepts and the others refuse
  (error number 111); port 9 raises, port 10 accepts, the others refuse.\<close>

definition all_open :: network where
  "all_open target port timeout = ConnectEx 0"

definition only_port_10 :: network where
  "only_port_10 target port timeout = (if port = 10 then ConnectEx 0 else ConnectEx 111)"

definition flaky_network :: network where
  "flaky_network target port timeout =
     (if port = 9 then SocketRaised else if port = 10 then ConnectEx 0 else ConnectEx 111)"

text \<open>Runtimes: every thread starts; the thread for port 11 cannot be started.\<close>

definition every_thread_starts :: "int \<Rightarrow> bool" where
  "every_thread_starts port = True"

definition no_thread_for_11 :: "int \<Rightarrow> bool" where
  "no_thread_for_11 port = (port \<noteq> 11)"

text \<open>Schedulers: the attempts complete in port order; the last started completes first.\<close>

definition port_order :: scheduler where
  "port_order threads = threads"

definition last_first :: scheduler where
  "last_first threads = rev threads"

text \<open>The rendering \<open>:.2f\<close> of the values that occur in the scenarios below.\<close>

definition two_places :: "real \<Rightarrow> string" where
  "two_places x =
     (if x = 0 then ''0.00'' else if x = 5 then ''5.00'' else if x = 25 / 2 then ''12.50''
      else if x = 40 then ''40.00'' else ''?'')"

text \<open>
  Speed test libraries. All negotiate a server named \<open>Test\<close> with a ping of 12.5 ms,
  starting from results that are all zero. In the first, both measurements complete; in
  the second, \<open>download\<close> raises in its thread; in the third, \<open>Speedtest()\<close> raises an
  exception whose text is empty; in the fourth, \<open>get_best_server\<close> raises.
\<close>

definition initial_results :: st_results where
  "initial_results = \<lparr>download = 0, upload = 0, ping = 0, server = []\<rparr>"

definition negotiate :: "st_results \<Rightarrow> st_results outcome" where
  "negotiate st = Returns (st\<lparr>ping := 25 / 2, server := [(''name'', ''Test'')]\<rparr>)"


definition download_fails_lib :: speedtest_lib where
  "download_fails_lib =
     \<lparr>Speedtest = Returns initial_results, get_best_server = negotiate,
      st_download = (\<lambda>st. Raises ''timed out''), st_upload = (\<lambda>st. Returns 5000000),
      fmt2 = two_places\<rparr>"



text \<open>The outside world of the address lookup: both services down; only the first down.\<close>

definition both_down :: "string \<Rightarrow> string outcome" where
  "both_down url = Raises ''connection refused''"

definition first_down :: "string \<Rightarrow> string outcome" where
  "first_down url = (if url = ''https://ident.me'' then Returns ''203.0.113.7'' else Raises ''timed out'')"

section \<open>Verified properties\<close>

subsection \<open>The string primitives on samples\<close>

text \<open>The values Python 3.11 gives for the same expressions.\<close>

lemma re_split_ws_samples:
  "re_split_ws [] = [[]]"
  "re_split_ws '' a  b '' = [[], ''a'', ''b'', []]"
  "re_split_ws (''a'' @ [CHR 0x1C] @ ''b'' @ [CHR 0x85] @ ''c'' @ [CHR 0xA0, CHR 0x0B] @ ''d'') =
     [''a'', ''b'', ''c'', ''d'']"
  by code_simp+

lemma str_split_samples:
  "str_split CHR ''-'' [] = [[]]"
  "str_split CHR ''-'' ''1--2'' = [''1'', [], ''2'']"
  "str_split CHR ''-'' ''-1-2'' = [[], ''1'', ''2'']"
  by code_simp+

lemma re_match_ipv4_samples:
  "re_match_ipv4 ''1.2.3.4''"
  "re_match_ipv4 ''12.2.3.4x''"
  "\<not> re_match_ipv4 ''1.2.3.''"
  "\<not> re_match_ipv4 ''1..2.3.4''"
  "\<not> re_match_ipv4 '' 1.2.3.4''"
  by code_simp+

lemma py_int_samples:
  "py_int 4300 '' 5 '' = Inr 5"
  "py_int 4300 ''1_0'' = Inr 10"
  "py_int 4300 ''+5'' = Inr 5"
  "py_int 4300 ''007'' = Inr 7"
  "py_int 4300 ([CHR 0x85] @ ''5'' @ [CHR 0xA0, CHR 0x0B]) = Inr 5"
  "py_int 4300 ([CHR 0x1C] @ ''5'') = Inl (InvalidLiteral ([CHR 0x1C] @ ''5''))"
  "py_int 4300 ''_1'' = Inl (InvalidLiteral ''_1'')"
  "py_int 4300 ''1__0'' = Inl (InvalidLiteral ''1__0'')"
  "py_int 4300 ''1_'' = Inl (InvalidLiteral ''1_'')"
  "py_int 4300 ''+ 5'' = Inl (InvalidLiteral ''+ 5'')"
  "py_int 4300 ''5 5'' = Inl (InvalidLiteral ''5 5'')"
  "py_int 4300 [] = Inl (InvalidLiteral [])"
  by code_simp+

lemma parse_ports_samples:
  "parse_ports 4300 ''1 - 2'' = Inr (1, 2)"
  "parse_ports 4300 ''1-2-3'' = Inl TooManyValues"
  "parse_ports 4300 ''1-2-x'' = Inl (InvalidLiteral ''x'')"
  "parse_ports 4300 ''1'' = Inl (NotEnoughValues 1)"
  "parse_ports 4300 ''-1-2'' = Inl (InvalidLiteral [])"
  "parse_ports 4300 ''1-'' = Inl (InvalidLiteral [])"
  by code_simp+

subsection \<open>The sample default-route line\<close>

text \<open>
  C1, at the failing input: for the line
  \<open>default 192.168.1.1 0.0.0.0 UG 0 0 0 eth0\<close> (columns padded with spaces, ended by a
  newline) \<open>_parse_unix_route\<close> returns one record with destination \<open>default\<close>, gateway
  \<open>192.168.1.1\<close>, netmask \<open>0.0.0.0\<close> and flags \<open>UG\<close>, and under the key \<open>Interface\<close> the
  sixth field of the line, \<open>0\<close>, which is the Window column of this layout; the
  interface \<open>eth0\<close> is the eighth field and is not read.
\<close>

theorem sample_default_line_record:
  "parse_unix_route
     (''default         192.168.1.1     0.0.0.0         UG        0 0          0 eth0'' @ [CHR 0x0A])
   = Inr [[(''Destination'', ''default''), (''Gateway'', ''192.168.1.1''),
           (''Genmask'', ''0.0.0.0''), (''Flags'', ''UG''), (''Interface'', ''0'')]]"
  by code_simp

subsection \<open>The route table parsers never raise\<close>

lemma windows_route_returns:
  assumes "5 \<le> length parts"
  shows "\<exists>r. windows_route parts = Inr r"
  using assms by (auto simp: windows_route_def getitem_def bind_exc_def)

lemma unix_default_route_returns:
  assumes "4 \<le> length parts"
  shows "\<exists>r. unix_default_route parts = Inr r"
  using assms by (auto simp: unix_default_route_def getitem_def bind_exc_def)

lemma unix_net_route_returns:
  assumes "5 \<le> length parts"
  shows "\<exists>r. unix_net_route parts = Inr r"
  using assms by (auto simp: unix_net_route_def getitem_def bind_exc_def)

lemma unix_default_route_positional:
  assumes "dotted_shape l"
  shows "unix_default_route (re_split_ws (strip l)) = Inr (positional_record l)"
  using assms
  by (auto simp: dotted_shape_def line_fields_def unix_default_route_def positional_record_def
      getitem_def bind_exc_def)

lemma unix_net_route_positional:
  assumes "dotted_shape l"
  shows "unix_net_route (re_split_ws (strip l)) = Inr (positional_record l)"
  using assms
  by (auto simp: dotted_shape_def line_fields_def unix_net_route_def positional_record_def
      getitem_def bind_exc_def)

lemma parse_windows_lines_count:
  "\<exists>rs. parse_windows_lines ls routes = Inr (routes @ rs) \<and>
        length rs = length (filter recognized_windows ls)"
proof (induction ls arbitrary: routes)
  case Nil
  show ?case by simp
next
  case (Cons l ls)
  show ?case
  proof (cases "recognized_windows l")
    case True
    then have len: "5 \<le> length (re_split_ws (strip l))" and pre: "startswith (strip l) ''0.0.0.0''"
      by (simp_all add: recognized_windows_def line_fields_def)
    from windows_route_returns [OF len] obtain r where r: "windows_route (re_split_ws (strip l)) = Inr r" ..
    from Cons.IH [of "routes @ [r]"] obtain rs where
      "parse_windows_lines ls (routes @ [r]) = Inr (routes @ [r] @ rs)"
      "length rs = length (filter recognized_windows ls)" by auto
    with True len pre r show ?thesis by (intro exI [of _ "r # rs"]) simp
  next
    case False
    then have "parse_windows_lines (l # ls) routes = parse_windows_lines ls routes"
      by (auto simp: recognized_windows_def line_fields_def Let_def)
    with False Cons.IH [of routes] show ?thesis by simp
  qed
qed

lemma parse_unix_lines_count:
  "\<exists>rs. parse_unix_lines ls routes = Inr (routes @ rs) \<and>
        length rs = length (filter recognized_unix ls)"
proof (induction ls arbitrary: routes)
  case Nil
  show ?case by simp
next
  case (Cons l ls)
  let ?line = "strip l"
  let ?parts = "re_split_ws ?line"
  consider (a) "default_shape l"
    | (b) "\<not> default_shape l" "dotted_shape l"
    | (c) "\<not> recognized_unix l"
    by (auto simp: recognized_unix_def)
  then show ?case
  proof cases
    case a
    then have len: "4 \<le> length ?parts"
      and pre: "startswith ?line ''default'' \<or> startswith ?line ''0.0.0.0''"
      by (simp_all add: default_shape_def line_fields_def)
    from unix_default_route_returns [OF len] obtain r where r: "unix_default_route ?parts = Inr r" ..
    from Cons.IH [of "routes @ [r]"] obtain rs where
      "parse_unix_lines ls (routes @ [r]) = Inr (routes @ [r] @ rs)"
      "length rs = length (filter recognized_unix ls)" by auto
    moreover from a have "recognized_unix l" by (simp add: recognized_unix_def)
    ultimately show ?thesis using len pre r
      by (intro exI [of _ "r # rs"]) simp
  next
    case b
    then have len: "5 \<le> length ?parts" and m: "re_match_ipv4 ?line"
      and pre: "\<not> (startswith ?line ''default'' \<or> startswith ?line ''0.0.0.0'')"
      by (auto simp: default_shape_def dotted_shape_def line_fields_def)
    from unix_net_route_returns [OF len] obtain r where r: "unix_net_route ?parts = Inr r" ..
    from Cons.IH [of "routes @ [r]"] obtain rs where
      "parse_unix_lines ls (routes @ [r]) = Inr (routes @ [r] @ rs)"
      "length rs = length (filter recognized_unix ls)" by auto
    moreover from b have "recognized_unix l" by (simp add: recognized_unix_def)
    ultimately show ?thesis using len pre m r
      by (intro exI [of _ "r # rs"]) simp
  next
    case c
    then have "parse_unix_lines (l # ls) routes = parse_unix_lines ls routes"
      by (auto simp: recognized_unix_def default_shape_def dotted_shape_def line_fields_def Let_def)
    with c Cons.IH [of routes] show ?thesis by simp
  qed
qed

lemma parse_unix_lines_positional:
  assumes "\<forall>l \<in> set ls. recognized_unix l \<longrightarrow> dotted_shape l"
  shows "parse_unix_lines ls routes = Inr (routes @ map positional_record (filter dotted_shape ls))"
  using assms
proof (induction ls arbitrary: routes)
  case Nil
  show ?case by simp
next
  case (Cons l ls)
  let ?line = "strip l"
  let ?parts = "re_split_ws ?line"
  from Cons.prems have rest: "\<forall>l \<in> set ls. recognized_unix l \<longrightarrow> dotted_shape l"
    and this_line: "recognized_unix l \<longrightarrow> dotted_shape l" by simp_all
  show ?case
  proof (cases "dotted_shape l")
    case True
    then have len: "5 \<le> length ?parts" and m: "re_match_ipv4 ?line"
      by (simp_all add: dotted_shape_def line_fields_def)
    have "parse_unix_lines (l # ls) routes = parse_unix_lines ls (routes @ [positional_record l])"
      using len m unix_default_route_positional [OF True] unix_net_route_positional [OF True]
      by (simp add: Let_def)
    with True Cons.IH [OF rest, of "routes @ [positional_record l]"] show ?thesis by simp
  next
    case False
    with this_line have "\<not> recognized_unix l" by blast
    then have "parse_unix_lines (l # ls) routes = parse_unix_lines ls routes"
      by (auto simp: recognized_unix_def default_shape_def dotted_shape_def line_fields_def Let_def)
    with False Cons.IH [OF rest, of routes] show ?thesis by simp
  qed
qed

text \<open>
  C4: for every operating system tag and every text, the route table parser returns a
  sequence and raises nothing; when no line of the text is recognized by the layout of
  that system, the sequence is empty.
\<close>

theorem parse_route_table_total:
  "\<exists>rs. parse_route_table system output = Inr rs \<and>
     ((\<forall>l \<in> set (str_split CHR 0x0A output). \<not> recognized system l) \<longrightarrow> rs = [])"
proof (cases system)
  case Windows
  from parse_windows_lines_count [of "str_split CHR 0x0A output" "[]"] obtain rs where
    "parse_windows_lines (str_split CHR 0x0A output) [] = Inr rs"
    "length rs = length (filter recognized_windows (str_split CHR 0x0A output))" by auto
  with Windows show ?thesis
    by (auto simp: parse_route_table_def parse_windows_route_def recognized_def filter_empty_conv)
next
  case Linux
  from parse_unix_lines_count [of "str_split CHR 0x0A output" "[]"] obtain rs where
    "parse_unix_lines (str_split CHR 0x0A output) [] = Inr rs"
    "length rs = length (filter recognized_unix (str_split CHR 0x0A output))" by auto
  with Linux show ?thesis
    by (auto simp: parse_route_table_def parse_unix_route_def recognized_def filter_empty_conv)
next
  case Darwin
  from parse_unix_lines_count [of "str_split CHR 0x0A output" "[]"] obtain rs where
    "parse_unix_lines (str_split CHR 0x0A output) [] = Inr rs"
    "length rs = length (filter recognized_unix (str_split CHR 0x0A output))" by auto
  with Darwin show ?thesis
    by (auto simp: parse_route_table_def parse_unix_route_def recognized_def filter_empty_conv)
qed

text \<open>A routing dump of two header lines, on Linux: nothing is recognized.\<close>

theorem parse_route_table_total_witness:
  "filter (recognized Linux)
     (str_split CHR 0x0A (''Kernel IP routing table'' @ [CHR 0x0A] @ ''Destination Gateway Genmask Flags Iface'')) = [] \<and>
   parse_route_table Linux (''Kernel IP routing table'' @ [CHR 0x0A] @ ''Destination Gateway Genmask Flags Iface'') = Inr []"
proof -
  let ?output = "''Kernel IP routing table'' @ [CHR 0x0A] @ ''Destination Gateway Genmask Flags Iface''"
  have none: "\<forall>l \<in> set (str_split CHR 0x0A ?output). \<not> recognized Linux l"
    by code_simp
  from parse_route_table_total [of Linux ?output] obtain rs where
    "parse_route_table Linux ?output = Inr rs"
    "(\<forall>l \<in> set (str_split CHR 0x0A ?output). \<not> recognized Linux l) \<longrightarrow> rs = []"
    by blast
  with none show ?thesis by (simp add: filter_empty_conv)
qed

text \<open>
  C8: under layout style 2, when every recognized line of the text begins with a
  dotted-decimal address and has at least 5 fields, the parser returns one record per
  such line, in the order of the lines, and each record is the positional one:
  destination, gateway, netmask and flags are fields 0 to 3, the interface is field 5
  when the line has at least 6 fields and empty otherwise.
\<close>

theorem dotted_lines_positional:
  assumes "\<forall>l \<in> set (str_split CHR 0x0A output). recognized_unix l \<longrightarrow> dotted_shape l"
  shows "parse_unix_route output =
           Inr (map positional_record (filter dotted_shape (str_split CHR 0x0A output)))"
  using parse_unix_lines_positional [OF assms, of "[]"] by (simp add: parse_unix_route_def)

text \<open>A header, a line of eight fields and an indented line of five.\<close>

theorem dotted_lines_positional_witness:
  "length (filter dotted_shape (str_split CHR 0x0A
       (''Destination Gateway Genmask Flags MSS Window irtt Iface'' @ [CHR 0x0A] @
        ''192.168.1.0  0.0.0.0  255.255.255.0  U  0 0 0 eth0'' @ [CHR 0x0A] @
        ''  10.0.0.0 10.0.0.1 255.0.0.0 UG 0'' @ [CHR 0x0A]))) = 2 \<and>
   parse_unix_route
       (''Destination Gateway Genmask Flags MSS Window irtt Iface'' @ [CHR 0x0A] @
        ''192.168.1.0  0.0.0.0  255.255.255.0  U  0 0 0 eth0'' @ [CHR 0x0A] @
        ''  10.0.0.0 10.0.0.1 255.0.0.0 UG 0'' @ [CHR 0x0A]) =
     Inr [[(''Destination'', ''192.168.1.0''), (''Gateway'', ''0.0.0.0''),
           (''Genmask'', ''255.255.255.0''), (''Flags'', ''U''), (''Interface'', ''0'')],
          [(''Destination'', ''10.0.0.0''), (''Gateway'', ''10.0.0.1''),
           (''Genmask'', ''255.0.0.0''), (''Flags'', ''UG''), (''Interface'', [])]]"
proof -
  let ?output = "''Destination Gateway Genmask Flags MSS Window irtt Iface'' @ [CHR 0x0A] @
        ''192.168.1.0  0.0.0.0  255.255.255.0  U  0 0 0 eth0'' @ [CHR 0x0A] @
        ''  10.0.0.0 10.0.0.1 255.0.0.0 UG 0'' @ [CHR 0x0A]"
  have shapes: "\<forall>l \<in> set (str_split CHR 0x0A ?output). recognized_unix l \<longrightarrow> dotted_shape l"
    by code_simp
  have "map positional_record (filter dotted_shape (str_split CHR 0x0A ?output)) =
     [[(''Destination'', ''192.168.1.0''), (''Gateway'', ''0.0.0.0''),
       (''Genmask'', ''255.255.255.0''), (''Flags'', ''U''), (''Interface'', ''0'')],
      [(''Destination'', ''10.0.0.0''), (''Gateway'', ''10.0.0.1''),
       (''Genmask'', ''255.0.0.0''), (''Flags'', ''UG''), (''Interface'', [])]]"
    by code_simp
  moreover have "length (filter dotted_shape (str_split CHR 0x0A ?output)) = 2"
    by code_simp
  ultimately show ?thesis using dotted_lines_positional [OF shapes] by simp
qed

subsection \<open>The port scanner\<close>

lemma str_split_nonempty: "str_split c xs \<noteq> []"
  by (induction xs) (auto split: list.splits)

lemma str_split_single:
  "str_split c xs = [a] \<Longrightarrow> xs = a \<and> c \<notin> set a"
proof (induction xs arbitrary: a)
  case Nil
  then show ?case by simp
next
  case (Cons x xs)
  show ?case
  proof (cases "x = c")
    case True
    with Cons.prems show ?thesis by (simp add: str_split_nonempty)
  next
    case False
    with Cons.prems obtain w where "str_split c xs = [w]" "a = x # w"
      by (auto simp: str_split_nonempty split: list.splits)
    with Cons.IH [of w] False show ?thesis by simp
  qed
qed

lemma str_split_pair:
  "str_split c xs = [a, b] \<Longrightarrow> xs = a @ c # b \<and> c \<notin> set a \<and> c \<notin> set b"
proof (induction xs arbitrary: a)
  case Nil
  then show ?case by simp
next
  case (Cons x xs)
  show ?case
  proof (cases "x = c")
    case True
    with Cons.prems have "a = []" "str_split c xs = [b]" by simp_all
    with str_split_single [of c xs b] True show ?thesis by simp
  next
    case False
    with Cons.prems obtain w where "str_split c xs = [w, b]" "a = x # w"
      by (auto simp: str_split_nonempty split: list.splits)
    with Cons.IH [of w] False show ?thesis by simp
  qed
qed

lemma str_split_no_sep: "c \<notin> set a \<Longrightarrow> str_split c a = [a]"
  by (induction a) auto

lemma str_split_at_sep: "c \<notin> set a \<Longrightarrow> str_split c (a @ c # b) = a # str_split c b"
  by (induction a) auto

lemma str_split_pair_iff:
  "str_split c xs = [a, b] \<longleftrightarrow> xs = a @ c # b \<and> c \<notin> set a \<and> c \<notin> set b"
  using str_split_pair [of c xs a b] by (auto simp: str_split_at_sep str_split_no_sep)

lemma parse_ports_Inr_iff:
  "parse_ports mx ports = Inr (s, e) \<longleftrightarrow>
     (\<exists>a b. str_split CHR ''-'' ports = [a, b] \<and> py_int mx a = Inr s \<and> py_int mx b = Inr e)"
  by (auto simp: parse_ports_def bind_exc_def split: list.splits sum.splits)

lemma parse_ports_two_integers:
  "parse_ports mx ports = Inr (s, e) \<longleftrightarrow> two_integers mx ports s e"
  unfolding parse_ports_Inr_iff two_integers_def str_split_pair_iff by auto

lemma scan_ports_fold:
  "foldl (\<lambda>open_ports port. scan_port net target timeout port open_ports) acc ps =
     acc @ filter (\<lambda>p. net target p timeout = ConnectEx 0) ps"
  by (induction ps arbitrary: acc) (auto simp: scan_port_def split: attempt.splits)

lemma start_threads_eq:
  "start_threads can_start ps started =
     (started @ takeWhile can_start ps,
      if list_all can_start ps then None else Some CantStartThread)"
  by (induction ps arbitrary: started) auto

lemma takeWhile_list_all: "list_all P xs \<Longrightarrow> takeWhile P xs = xs"
  by (simp add: list_all_iff)

lemma port_scan_parsed:
  assumes "parse_ports mx ports = Inr (s, e)" and "list_all can_start [s..e]"
  shows "port_scan mx net can_start sched target ports timeout =
           (OpenPorts (filter (\<lambda>p. net target p timeout = ConnectEx 0) (sched [s..e])), sched [s..e])"
  using assms
  by (simp add: port_scan_def start_threads_eq takeWhile_list_all scan_ports_fold Let_def)

lemma port_scan_start_failed:
  assumes "parse_ports mx ports = Inr (s, e)" and "\<not> list_all can_start [s..e]"
  shows "port_scan mx net can_start sched target ports timeout =
           (ScanError CantStartThread, sched (takeWhile can_start [s..e]))"
  using assms by (simp add: port_scan_def start_threads_eq)

lemma port_scan_unparsed:
  assumes "parse_ports mx ports = Inl err"
  shows "port_scan mx net can_start sched target ports timeout = (ScanError err, [])"
  using assms by (simp add: port_scan_def)

lemma port_scan_OpenPorts:
  assumes "parse_ports mx ports = Inr (s, e)"
    and "fst (port_scan mx net can_start sched target ports timeout) = OpenPorts found"
  shows "list_all can_start [s..e] \<and>
         found = filter (\<lambda>p. net target p timeout = ConnectEx 0) (sched [s..e])"
proof (cases "list_all can_start [s..e]")
  case True
  with assms show ?thesis by (simp add: port_scan_parsed)
next
  case False
  with assms show ?thesis by (simp add: port_scan_start_failed)
qed

lemma py_int_not_thread_error: "py_int mx a \<noteq> Inl CantStartThread"
  by (simp add: py_int_def Let_def split: option.splits prod.splits)

lemma parse_ports_not_thread_error: "parse_ports mx ports \<noteq> Inl CantStartThread"
  using py_int_not_thread_error
  by (auto simp: parse_ports_def bind_exc_def split: list.splits sum.splits)

lemma fair_set: "fair sched [s..e] \<Longrightarrow> set (sched [s..e]) = {s..e}"
  unfolding fair_def by (drule mset_eq_setD) simp

lemma sorted_wrt_less_filter_upto: "sorted_wrt (<) (filter P [s..e])"
  by (rule sorted_wrt_filter) (simp add: strict_sorted_iff [symmetric] flip: strict_sorted_iff)

text \<open>
  C5: when the range string parses to \<open>start\<close> and \<open>end\<close>, every port in the list that
  \<open>port_scan\<close> returns lies between \<open>start\<close> and \<open>end\<close>, both included; and a list is
  returned whenever every thread could be started.
\<close>

theorem ports_within_range:
  assumes "parse_ports mx ports = Inr (s, e)" and "fair sched [s..e]"
  shows "(list_all can_start [s..e] \<longrightarrow>
            (\<exists>found. fst (port_scan mx net can_start sched target ports timeout) = OpenPorts found)) \<and>
         (\<forall>found. fst (port_scan mx net can_start sched target ports timeout) = OpenPorts found \<longrightarrow>
            (\<forall>p \<in> set found. s \<le> p \<and> p \<le> e))"
proof (intro conjI allI impI)
  assume "list_all can_start [s..e]"
  with assms(1) show "\<exists>found. fst (port_scan mx net can_start sched target ports timeout) = OpenPorts found"
    by (simp add: port_scan_parsed)
next
  fix found
  assume "fst (port_scan mx net can_start sched target ports timeout) = OpenPorts found"
  from port_scan_OpenPorts [OF assms(1) this]
  have "set found \<subseteq> set (sched [s..e])" by auto
  with fair_set [OF assms(2)] show "\<forall>p \<in> set found. s \<le> p \<and> p \<le> e" by auto
qed

text \<open>
  The range \<open>9-11\<close> against a host that listens on port 10 only, the attempts
  completing last first.
\<close>

theorem ports_within_range_witness:
  "parse_ports 4300 ''9-11'' = Inr (9, 11) \<and> fair last_first [9..11] \<and>
   fst (port_scan 4300 only_port_10 every_thread_starts last_first ''127.0.0.1'' ''9-11'' (1 / 2)) =
     OpenPorts [10]"
proof -
  have p: "parse_ports 4300 ''9-11'' = Inr (9, 11)" by code_simp
  have f: "fair last_first [9..11]" by (simp add: fair_def last_first_def)
  have r: "[9..11] = [9, 10, 11::int]" by code_simp
  have a: "list_all every_thread_starts [9..11]" by (simp add: list_all_iff every_thread_starts_def)
  from ports_within_range [OF p f, of every_thread_starts only_port_10 "''127.0.0.1''" "1 / 2"] a
  obtain found where
    "fst (port_scan 4300 only_port_10 every_thread_starts last_first ''127.0.0.1'' ''9-11'' (1 / 2)) =
       OpenPorts found" by blast
  moreover have
    "fst (port_scan 4300 only_port_10 every_thread_starts last_first ''127.0.0.1'' ''9-11'' (1 / 2)) =
       OpenPorts [10]"
    by (simp add: port_scan_parsed [OF p a] r last_first_def only_port_10_def)
  ultimately show ?thesis using p f by simp
qed

text \<open>
  C10: when the range string parses to \<open>start\<close> and \<open>end\<close> with \<open>start > end\<close>, \<open>port_scan\<close>
  starts no thread, attempts no connection and returns the empty list, not an error.
\<close>

theorem inverted_range_is_empty:
  assumes "parse_ports mx ports = Inr (s, e)" and "e < s" and "fair sched [s..e]"
  shows "port_scan mx net can_start sched target ports timeout = (OpenPorts [], [])"
proof -
  from \<open>e < s\<close> have empty: "[s..e] = []" by simp
  with \<open>fair sched [s..e]\<close> have "sched [s..e] = []" by (simp add: fair_def)
  moreover from empty have "list_all can_start [s..e]" by simp
  ultimately show ?thesis using assms(1) by (simp add: port_scan_parsed)
qed

text \<open>
  The range \<open>443-80\<close>.
\<close>

theorem inverted_range_is_empty_witness:
  "parse_ports 4300 ''443-80'' = Inr (443, 80) \<and> fair last_first [443..80] \<and>
   port_scan 4300 all_open no_thread_for_11 last_first ''127.0.0.1'' ''443-80'' 1 = (OpenPorts [], [])"
proof -
  have p: "parse_ports 4300 ''443-80'' = Inr (443, 80)" by code_simp
  have f: "fair last_first [443..80]" by (simp add: fair_def last_first_def)
  from inverted_range_is_empty [OF p _ f, of all_open no_thread_for_11 "''127.0.0.1''" 1] p f
  show ?thesis by simp
qed

text \<open>
  C2, as stated: the list returned is ascending. It is not: with ports 10 and 11 both
  accepting and the attempt on 11 completing first, the list is \<open>[11, 10]\<close>; nothing
  sorts it.
\<close>

theorem completion_order_not_ascending:
  "parse_ports 4300 ''10-11'' = Inr (10, 11) \<and> fair last_first [10..11] \<and>
   fst (port_scan 4300 all_open every_thread_starts last_first ''127.0.0.1'' ''10-11'' 1) =
     OpenPorts [11, 10]"
proof -
  have p: "parse_ports 4300 ''10-11'' = Inr (10, 11)" by code_simp
  have f: "fair last_first [10..11]" by (simp add: fair_def last_first_def)
  have a: "list_all every_thread_starts [10..11]" by (simp add: list_all_iff every_thread_starts_def)
  have "[10..11] = [10, 11::int]" by code_simp
  then have "fst (port_scan 4300 all_open every_thread_starts last_first ''127.0.0.1'' ''10-11'' 1) =
      OpenPorts [11, 10]"
    by (simp add: port_scan_parsed [OF p a] last_first_def all_open_def)
  with p f show ?thesis by simp
qed

text \<open>
  C2, amended: when the range string parses to \<open>start\<close> and \<open>end\<close>, the list returned holds
  the ports of the range whose connection was accepted in the order in which the
  attempts completed. It is a rearrangement of the ascending list of those ports, and
  it is ascending when the attempts complete in port order. A list is returned whenever
  every thread could be started.
\<close>

theorem open_ports_in_completion_order:
  assumes "parse_ports mx ports = Inr (s, e)" and "fair sched [s..e]"
  shows "(list_all can_start [s..e] \<longrightarrow>
            (\<exists>found. fst (port_scan mx net can_start sched target ports timeout) = OpenPorts found)) \<and>
         (\<forall>found. fst (port_scan mx net can_start sched target ports timeout) = OpenPorts found \<longrightarrow>
            found = filter (\<lambda>p. net target p timeout = ConnectEx 0) (sched [s..e]) \<and>
            mset found = mset (filter (\<lambda>p. net target p timeout = ConnectEx 0) [s..e]) \<and>
            (sched [s..e] = [s..e] \<longrightarrow> sorted_wrt (<) found))"
proof (intro conjI allI impI)
  assume "list_all can_start [s..e]"
  with assms(1) show "\<exists>found. fst (port_scan mx net can_start sched target ports timeout) = OpenPorts found"
    by (simp add: port_scan_parsed)
next
  fix found
  assume "fst (port_scan mx net can_start sched target ports timeout) = OpenPorts found"
  from port_scan_OpenPorts [OF assms(1) this]
  have found: "found = filter (\<lambda>p. net target p timeout = ConnectEx 0) (sched [s..e])" by simp
  then show "found = filter (\<lambda>p. net target p timeout = ConnectEx 0) (sched [s..e])" .
  from found assms(2)
  show "mset found = mset (filter (\<lambda>p. net target p timeout = ConnectEx 0) [s..e])"
    by (simp add: fair_def)
  assume "sched [s..e] = [s..e]"
  with found show "sorted_wrt (<) found" by (simp add: sorted_wrt_less_filter_upto)
qed

text \<open>
  The range \<open>9-11\<close>, the attempts completing in port order.
\<close>

theorem open_ports_in_completion_order_witness:
  "parse_ports 4300 ''9-11'' = Inr (9, 11) \<and> fair port_order [9..11] \<and>
   fst (port_scan 4300 flaky_network every_thread_starts port_order ''127.0.0.1'' ''9-11'' 1) =
     OpenPorts [10]"
proof -
  have p: "parse_ports 4300 ''9-11'' = Inr (9, 11)" by code_simp
  have f: "fair port_order [9..11]" by (simp add: fair_def port_order_def)
  have r: "[9..11] = [9, 10, 11::int]" by code_simp
  have a: "list_all every_thread_starts [9..11]" by (simp add: list_all_iff every_thread_starts_def)
  note inst = open_ports_in_completion_order
    [OF p f, of every_thread_starts flaky_network "''127.0.0.1''" 1]
  from inst a obtain found where
    found: "fst (port_scan 4300 flaky_network every_thread_starts port_order ''127.0.0.1'' ''9-11'' 1) =
       OpenPorts found" by blast
  with inst have "found = filter (\<lambda>p. flaky_network ''127.0.0.1'' p 1 = ConnectEx 0) (port_order [9..11])"
    by blast
  then have "found = [10]" by (simp add: r port_order_def flaky_network_def)
  with found p f show ?thesis by simp
qed

text \<open>
  C3, as stated: \<open>port_scan\<close> returns its error value only when the range string cannot be
  parsed, and then nothing was scanned. It is not so: on the range \<open>9-11\<close>, when the
  thread for port 11 cannot be started, the \<open>RuntimeError\<close> reaches the outer handler and
  the error value is returned, with connections attempted on ports 9 and 10.
\<close>

theorem scan_error_on_parsable_range:
  "two_integers 4300 ''9-11'' 9 11 \<and>
   port_scan 4300 flaky_network no_thread_for_11 last_first ''127.0.0.1'' ''9-11'' (1 / 2) =
     (ScanError CantStartThread, [10, 9])"
proof -
  have p: "parse_ports 4300 ''9-11'' = Inr (9, 11)" by code_simp
  then have t: "two_integers 4300 ''9-11'' 9 11" by (simp add: parse_ports_two_integers)
  have r: "[9..11] = [9, 10, 11::int]" by code_simp
  have n: "\<not> list_all no_thread_for_11 [9..11]" by (simp add: r no_thread_for_11_def)
  from port_scan_start_failed [OF p n]
  have "port_scan 4300 flaky_network no_thread_for_11 last_first ''127.0.0.1'' ''9-11'' (1 / 2) =
     (ScanError CantStartThread, [10, 9])"
    by (simp add: r no_thread_for_11_def last_first_def)
  with t show ?thesis by simp
qed

text \<open>
  C3, amended: \<open>port_scan\<close> returns its error value exactly when the range string is not
  two integers with one \<open>-\<close> between them or a thread could not be started. When the
  string is not two integers, the error is that of the parse and no connection was
  attempted; for the range \<open>abc-10\<close> it is the error of the literal \<open>abc\<close>, not an empty
  list. When a thread could not be started, the error is that of the thread start, and
  connections are attempted on the ports whose threads had started. When the range is
  two integers and every thread starts, whatever the single attempts do (refuse, time
  out, raise), a list is returned that holds exactly the ports of the range whose
  connection was accepted.
\<close>

theorem scan_fails_on_range_or_thread_start:
  "((\<exists>err. fst (port_scan mx net can_start sched target ports timeout) = ScanError err) \<longleftrightarrow>
      (\<not> (\<exists>s e. two_integers mx ports s e) \<or>
       (\<exists>s e. two_integers mx ports s e \<and> \<not> list_all can_start [s..e]))) \<and>
   (\<not> (\<exists>s e. two_integers mx ports s e) \<longrightarrow>
      (\<exists>err. port_scan mx net can_start sched target ports timeout = (ScanError err, []) \<and>
             err \<noteq> CantStartThread)) \<and>
   port_scan mx net can_start sched target ''abc-10'' timeout =
     (ScanError (InvalidLiteral ''abc''), []) \<and>
   (\<forall>s e. two_integers mx ports s e \<and> \<not> list_all can_start [s..e] \<longrightarrow>
      port_scan mx net can_start sched target ports timeout =
        (ScanError CantStartThread, sched (takeWhile can_start [s..e]))) \<and>
   (\<forall>s e. two_integers mx ports s e \<and> list_all can_start [s..e] \<and> fair sched [s..e] \<longrightarrow>
      (\<exists>found. fst (port_scan mx net can_start sched target ports timeout) = OpenPorts found \<and>
         set found = {p. s \<le> p \<and> p \<le> e \<and> net target p timeout = ConnectEx 0}))"
proof -
  let ?r = "port_scan mx net can_start sched target ports timeout"
  have started: "\<forall>s e. two_integers mx ports s e \<and> list_all can_start [s..e] \<longrightarrow>
      ?r = (OpenPorts (filter (\<lambda>p. net target p timeout = ConnectEx 0) (sched [s..e])), sched [s..e])"
    by (simp add: port_scan_parsed flip: parse_ports_two_integers)
  have failed: "\<forall>s e. two_integers mx ports s e \<and> \<not> list_all can_start [s..e] \<longrightarrow>
      ?r = (ScanError CantStartThread, sched (takeWhile can_start [s..e]))"
    by (simp add: port_scan_start_failed flip: parse_ports_two_integers)
  have unparsed: "\<not> (\<exists>s e. two_integers mx ports s e) \<longrightarrow>
      (\<exists>err. ?r = (ScanError err, []) \<and> err \<noteq> CantStartThread)"
  proof
    assume no: "\<not> (\<exists>s e. two_integers mx ports s e)"
    show "\<exists>err. ?r = (ScanError err, []) \<and> err \<noteq> CantStartThread"
    proof (cases "parse_ports mx ports")
      case (Inl err)
      with parse_ports_not_thread_error [of mx ports] have "err \<noteq> CantStartThread" by auto
      with Inl show ?thesis by (simp add: port_scan_unparsed)
    next
      case (Inr se)
      then obtain s e where "parse_ports mx ports = Inr (s, e)" by (cases se) simp
      with no show ?thesis by (simp add: parse_ports_two_integers)
    qed
  qed
  have iff: "(\<exists>err. fst ?r = ScanError err) \<longleftrightarrow>
      (\<not> (\<exists>s e. two_integers mx ports s e) \<or>
       (\<exists>s e. two_integers mx ports s e \<and> \<not> list_all can_start [s..e]))"
  proof (cases "\<exists>s e. two_integers mx ports s e")
    case False
    with unparsed show ?thesis by auto
  next
    case True
    then obtain s e where t: "two_integers mx ports s e" by blast
    then have p: "parse_ports mx ports = Inr (s, e)" by (simp add: parse_ports_two_integers)
    have only: "s' = s \<and> e' = e" if "two_integers mx ports s' e'" for s' e'
      using that p by (simp flip: parse_ports_two_integers)
    show ?thesis
    proof (cases "list_all can_start [s..e]")
      case True
      with started t
      have res: "fst ?r = OpenPorts (filter (\<lambda>p. net target p timeout = ConnectEx 0) (sched [s..e]))"
        by simp
      have "\<not> (\<exists>s' e'. two_integers mx ports s' e' \<and> \<not> list_all can_start [s'..e'])"
      proof
        assume "\<exists>s' e'. two_integers mx ports s' e' \<and> \<not> list_all can_start [s'..e']"
        then obtain s' e' where "two_integers mx ports s' e'" "\<not> list_all can_start [s'..e']"
          by blast
        with only [of s' e'] True show False by simp
      qed
      moreover from t have "\<exists>s e. two_integers mx ports s e" by blast
      ultimately show ?thesis using res by simp
    next
      case False
      with failed t have "fst ?r = ScanError CantStartThread" by simp
      moreover from t False
      have "\<exists>s e. two_integers mx ports s e \<and> \<not> list_all can_start [s..e]" by blast
      ultimately show ?thesis by simp
    qed
  qed
  have abc: "parse_ports mx ''abc-10'' = Inl (InvalidLiteral ''abc'')"
    by (simp add: parse_ports_def py_int_def int_space_def isdigit_def bind_exc_def)
  have ok: "\<forall>s e. two_integers mx ports s e \<and> list_all can_start [s..e] \<and> fair sched [s..e] \<longrightarrow>
      (\<exists>found. fst ?r = OpenPorts found \<and>
         set found = {p. s \<le> p \<and> p \<le> e \<and> net target p timeout = ConnectEx 0})"
    using started by (auto dest: fair_set)
  from iff unparsed port_scan_unparsed [OF abc] failed ok show ?thesis by blast
qed

text \<open>
  The ranges \<open>9-11\<close> and \<open>abc-10\<close> against a host where the attempt on port 9 raises,
  port 10 accepts and port 11 refuses, every thread starting.
\<close>

theorem scan_fails_on_range_or_thread_start_witness:
  "parse_ports 4300 ''9-11'' = Inr (9, 11) \<and> fair last_first [9..11] \<and>
   port_scan 4300 flaky_network every_thread_starts last_first ''127.0.0.1'' ''9-11'' (1 / 2) =
     (OpenPorts [10], [11, 10, 9]) \<and>
   port_scan 4300 flaky_network every_thread_starts last_first ''127.0.0.1'' ''abc-10'' (1 / 2) =
     (ScanError (InvalidLiteral ''abc''), [])"
proof -
  have p: "parse_ports 4300 ''9-11'' = Inr (9, 11)" by code_simp
  then have t: "two_integers 4300 ''9-11'' 9 11" by (simp add: parse_ports_two_integers)
  have f: "fair last_first [9..11]" by (simp add: fair_def last_first_def)
  have r: "[9..11] = [9, 10, 11::int]" by code_simp
  have a: "list_all every_thread_starts [9..11]" by (simp add: list_all_iff every_thread_starts_def)
  note all = scan_fails_on_range_or_thread_start
    [of 4300 flaky_network every_thread_starts last_first "''127.0.0.1''" "''9-11''" "1 / 2"]
  from all have "port_scan 4300 flaky_network every_thread_starts last_first ''127.0.0.1'' ''abc-10'' (1 / 2) =
      (ScanError (InvalidLiteral ''abc''), [])" by blast
  moreover from all t a f obtain found where
    "fst (port_scan 4300 flaky_network every_thread_starts last_first ''127.0.0.1'' ''9-11'' (1 / 2)) =
       OpenPorts found"
    by blast
  moreover have "port_scan 4300 flaky_network every_thread_starts last_first ''127.0.0.1'' ''9-11'' (1 / 2) =
      (OpenPorts [10], [11, 10, 9])"
    by (simp add: port_scan_parsed [OF p a] r last_first_def flaky_network_def)
  ultimately show ?thesis using p f by simp
qed

subsection \<open>The speed test\<close>

text \<open>An exception raised by \<open>Speedtest()\<close> or by \<open>get_best_server\<close> reaches the handler.\<close>

lemma negotiation_failure_reported:
  "Speedtest lib = Raises e \<or>
     (\<exists>st. Speedtest lib = Returns st \<and> get_best_server lib st = Raises e) \<Longrightarrow>
   run_speed_test lib = Returns [(''Error'', e)]"
  by (auto simp: run_speed_test_def try_except_def speed_test_body_def bind_outcome_def)

text \<open>
  An exception raised by \<open>download\<close> does not: with a negotiated server that has a name,
  the report is the success variant.
\<close>

lemma measurement_failure_not_reported:
  assumes "Speedtest lib = Returns st0" and "get_best_server lib st0 = Returns st1"
    and "st_download lib st1 = Raises e" and "map_of (server st1) ''name'' = Some n"
  shows "\<exists>r. run_speed_test lib = Returns r \<and> success_report r"
  using assms
  by (auto simp: run_speed_test_def try_except_def speed_test_body_def bind_outcome_def
      run_thread_def subscript_def Let_def success_report_def has_key_def
      split: outcome.splits)

text \<open>
  C6, at the failing library: \<open>download\<close> raises in its thread, the exception ends the
  thread and never reaches the handler of \<open>run_speed_test\<close>, and the report is the
  success variant, its download figure computed from the value \<open>st.results.download\<close>
  had before the measurement.
\<close>

theorem download_failure_reported_as_success:
  "get_best_server download_fails_lib initial_results =
     Returns (initial_results\<lparr>ping := 25 / 2, server := [(''name'', ''Test'')]\<rparr>) \<and>
   st_download download_fails_lib (initial_results\<lparr>ping := 25 / 2, server := [(''name'', ''Test'')]\<rparr>) =
     Raises ''timed out'' \<and>
   run_speed_test download_fails_lib =
     Returns [(''Download'', ''0.00 Mbps''), (''Upload'', ''5.00 Mbps''), (''Ping'', ''12.50 ms''),
              (''Server'', ''Test'')]"
  by (simp add: run_speed_test_def try_except_def speed_test_body_def bind_outcome_def
      download_fails_lib_def initial_results_def negotiate_def run_thread_def subscript_def
      two_places_def)






subsection \<open>The public address lookup\<close>

text \<open>
  C9: \<open>_get_external_ip\<close> never raises. It asks the first service; when that returns, its
  answer is the result and the second service is not asked. When the first raises, it
  asks the second, whose answer is the result; when the second raises too, the result is
  \<open>Error: \<close> followed by the text of that exception, a string that begins with \<open>Error:\<close>.
\<close>

theorem external_ip_fallback:
  "(\<exists>ip. fst (get_external_ip web) = Returns ip) \<and>
   (\<forall>ip. web ''https://api.ipify.org'' = Returns ip \<longrightarrow>
      get_external_ip web = (Returns ip, [''https://api.ipify.org''])) \<and>
   (\<forall>e ip. web ''https://api.ipify.org'' = Raises e \<and> web ''https://ident.me'' = Returns ip \<longrightarrow>
      get_external_ip web = (Returns ip, [''https://api.ipify.org'', ''https://ident.me''])) \<and>
   (\<forall>e1 e2. web ''https://api.ipify.org'' = Raises e1 \<and> web ''https://ident.me'' = Raises e2 \<longrightarrow>
      get_external_ip web =
        (Returns (''Error: '' @ e2), [''https://api.ipify.org'', ''https://ident.me'']) \<and>
      startswith (''Error: '' @ e2) ''Error:'')"
proof -
  have "\<exists>ip. fst (get_external_ip web) = Returns ip"
    by (cases "web ''https://api.ipify.org''"; cases "web ''https://ident.me''")
       (simp_all add: get_external_ip_def requests_get_def try_except_def)
  moreover have "\<forall>e1 e2. web ''https://api.ipify.org'' = Raises e1 \<and> web ''https://ident.me'' = Raises e2 \<longrightarrow>
      get_external_ip web =
        (Returns (''Error: '' @ e2), [''https://api.ipify.org'', ''https://ident.me'']) \<and>
      startswith (''Error: '' @ e2) ''Error:''"
    by (simp add: get_external_ip_def requests_get_def try_except_def startswith_def)
  ultimately show ?thesis
    by (simp add: get_external_ip_def requests_get_def try_except_def)
qed

text \<open>
  Both services down; only the first down.
\<close>

theorem external_ip_fallback_witness:
  "get_external_ip both_down =
     (Returns ''Error: connection refused'', [''https://api.ipify.org'', ''https://ident.me'']) \<and>
   get_external_ip first_down =
     (Returns ''203.0.113.7'', [''https://api.ipify.org'', ''https://ident.me''])"
proof -
  have "both_down ''https://api.ipify.org'' = Raises ''connection refused'' \<and>
        both_down ''https://ident.me'' = Raises ''connection refused''"
    by (simp add: both_down_def)
  with external_ip_fallback [of both_down]
  have "get_external_ip both_down =
     (Returns (''Error: '' @ ''connection refused''), [''https://api.ipify.org'', ''https://ident.me''])"
    by blast
  moreover have "first_down ''https://api.ipify.org'' = Raises ''timed out'' \<and>
        first_down ''https://ident.me'' = Returns ''203.0.113.7''"
    by (simp add: first_down_def)
  with external_ip_fallback [of first_down]
  have "get_external_ip first_down =
     (Returns ''203.0.113.7'', [''https://api.ipify.org'', ''https://ident.me''])"
    by blast
  ultimately show ?thesis by simp
qed

end
